theory Spec2Isabelle
  imports Main "HOL-Library.Sublist" "HOL-Library.Product_Lexorder"
begin

section \<open>Go strings\<close>

text \<open>
  A Go string is modelled by its bytes (\<open>string\<close> is \<open>char list\<close>), so \<open>length\<close> is Go's
  \<open>len\<close>. \<open>strings.Fields\<close> and \<open>strings.TrimSpace\<close> are modelled on their ASCII
  white space \<open>'\t', '\n', '\v', '\f', '\r', ' '\<close>; the multi-byte Unicode spaces that the
  library also recognises (U+0085, U+00A0, ...) are ordinary bytes here.
\<close>

definition isSpace :: "char \<Rightarrow> bool" where
  "isSpace c = (c = CHR 0x09 \<or> c = CHR 0x0A \<or> c = CHR 0x0B \<or> c = CHR 0x0C \<or> c = CHR 0x0D \<or> c = CHR '' '')"

text \<open>\<open>strings.Fields\<close>: the maximal runs of non-space bytes, in order.\<close>

function Fields :: "string \<Rightarrow> string list" where
  "Fields s =
     (case dropWhile isSpace s of
        [] \<Rightarrow> []
      | c # r \<Rightarrow> (c # takeWhile (\<lambda>x. \<not> isSpace x) r) # Fields (dropWhile (\<lambda>x. \<not> isSpace x) r))"
  by pat_completeness auto
termination
proof (relation "measure length")
  show "wf (measure length)" by simp
next
  fix s :: string and c r
  assume "dropWhile isSpace s = c # r"
  then have "length (c # r) \<le> length s"
    by (metis length_dropWhile_le)
  moreover have "length (dropWhile (\<lambda>x. \<not> isSpace x) r) \<le> length r"
    by (rule length_dropWhile_le)
  ultimately show "(dropWhile (\<lambda>x. \<not> isSpace x) r, s) \<in> measure length"
    by simp
qed

declare Fields.simps [simp del]

text \<open>\<open>strings.TrimSpace\<close>: the string without its leading and trailing white space.\<close>

definition TrimSpace :: "string \<Rightarrow> string" where
  "TrimSpace s = rev (dropWhile isSpace (rev (dropWhile isSpace s)))"

text \<open>\<open>strings.ToLower\<close> on the ASCII letters.\<close>

definition toLower :: "char \<Rightarrow> char" where
  "toLower c = (if 65 \<le> (of_char c :: nat) \<and> (of_char c :: nat) \<le> 90 then char_of (of_char c + (32::nat)) else c)"

definition ToLower :: "string \<Rightarrow> string" where
  "ToLower s = map toLower s"

text \<open>The \<open>%d\<close> verb of \<open>fmt.Sprintf\<close> on a non-negative number.\<close>

fun decimal :: "nat \<Rightarrow> string" where
  "decimal n = (if n < 10 then [char_of (48 + n)] else decimal (n div 10) @ [char_of (48 + n mod 10)])"

declare decimal.simps [simp del]

section \<open>OpenAIService.ChunkText\<close>

text \<open>
  One iteration of \<open>for _, word := range words\<close>: the state is \<open>(chunks, currentChunk)\<close>.
  \<open>currentChunk.Len()\<close> and \<open>len(word)\<close> are byte counts, compared with the Go \<open>int\<close>
  \<open>maxChunkSize\<close>.
\<close>

definition ChunkText_step :: "int \<Rightarrow> string list \<times> string \<Rightarrow> string \<Rightarrow> string list \<times> string" where
  "ChunkText_step maxChunkSize st word =
     (let (chunks, currentChunk) = st;
          (chunks, currentChunk) =
             (if length currentChunk > 0 \<and> int (length currentChunk) + int (length word) + 1 > maxChunkSize
              then (chunks @ [TrimSpace currentChunk], [])
              else (chunks, currentChunk));
          currentChunk = (if length currentChunk > 0 then currentChunk @ '' '' else currentChunk)
      in (chunks, currentChunk @ word))"

fun ChunkText_loop :: "int \<Rightarrow> string list \<Rightarrow> string list \<times> string \<Rightarrow> string list \<times> string" where
  "ChunkText_loop maxChunkSize [] st = st"
| "ChunkText_loop maxChunkSize (word # words) st =
     ChunkText_loop maxChunkSize words (ChunkText_step maxChunkSize st word)"

definition ChunkText :: "string \<Rightarrow> int \<Rightarrow> string list" where
  "ChunkText text maxChunkSize =
     (let maxChunkSize = (if maxChunkSize \<le> 0 then 1000 else maxChunkSize);
          words = Fields text
      in if length words = 0 then []
         else (let (chunks, currentChunk) = ChunkText_loop maxChunkSize words ([], [])
               in if length currentChunk > 0 then chunks @ [TrimSpace currentChunk] else chunks))"

text \<open>Proof vocabulary for the chunking loop: the words held by a loop state, and its invariant.\<close>

definition held :: "string list \<times> string \<Rightarrow> string list" where
  "held st = concat (map Fields (fst st)) @ Fields (snd st)"

definition chunk_inv :: "string list \<times> string \<Rightarrow> bool" where
  "chunk_inv st = ([] \<notin> set (fst st) \<and> (snd st = [] \<or> Fields (snd st) \<noteq> []))"

section \<open>Provider adapters\<close>

type_synonym uuid = nat
type_synonym vector = "int list"
type_synonym AIProvider = string

definition OpenAIProvider :: AIProvider where "OpenAIProvider = ''openai''"
definition GeminiProvider :: AIProvider where "GeminiProvider = ''gemini''"

text \<open>
  A \<open>uuid.UUID\<close> is a number, \<open>0\<close> being \<open>uuid.Nil\<close>, and its text form \<open>.String()\<close> is
  identified with it. A \<open>[]float32\<close> embedding is a list of numbers whose values are never
  inspected.

  Every Go \<open>error\<close> the modelled functions build, and the one run-time panic they can raise.
\<close>

datatype error =
    OpenAI_API_error
  | No_response_from_OpenAI
  | Gemini_API_error
  | No_response_from_Gemini
  | OpenAI_service_not_available
  | Gemini_service_not_available
  | Unsupported_AI_provider AIProvider
  | Both_AI_providers_failed AIProvider AIProvider
  | Provider_not_available AIProvider
  | OpenAI_embedding_error
  | No_embedding_data_returned
  | Http_transport_error
  | Failed_to_store_vector nat
  | Search_by_text_not_implemented
  | DB_error
  | Panic

datatype UnifiedChatMessage = UnifiedChatMessage (um_Role: string) (um_Content: string)
datatype OpenAIChatMessage = OpenAIChatMessage (om_Role: string) (om_Content: string)
datatype GeminiChatMessage = GeminiChatMessage (gm_Role: string) (gm_Content: string)

text \<open>What the client libraries put on the wire: \<open>openai.ChatCompletionMessage\<close> and \<open>genai.Content\<close>.\<close>

datatype ChatCompletionMessage = ChatCompletionMessage (wire_Role: string) (wire_Content: string)
datatype genai_Content = genai_Content (genai_Parts: "string list") (genai_Role: string)

record OpenAIChatRequest =
  oreq_Messages :: "OpenAIChatMessage list"
  oreq_Context :: "string list"
  oreq_SessionID :: uuid
  oreq_UseKnowledgeBase :: bool

record OpenAIChatResponse =
  ores_Message :: string
  ores_Sources :: "string list"
  ores_SessionID :: uuid

record GeminiChatRequest =
  greq_Messages :: "GeminiChatMessage list"
  greq_Context :: "string list"
  greq_SessionID :: uuid
  greq_UseKnowledgeBase :: bool
  greq_SystemPrompt :: string

record GeminiChatResponse =
  gres_Message :: string
  gres_Sources :: "string list"
  gres_SessionID :: uuid
  gres_Model :: string

record UnifiedChatRequest =
  Messages :: "UnifiedChatMessage list"
  Context :: "string list"
  SessionID :: uuid
  UseKnowledgeBase :: bool
  SystemPrompt :: string
  PreferredProvider :: AIProvider

record UnifiedChatResponse =
  Message :: string
  Sources :: "string list"
  res_SessionID :: uuid
  Provider :: AIProvider
  Model :: string

text \<open>
  The external APIs are the function fields of the services. \<open>CreateChatCompletion\<close> is the
  go-openai call on the messages of the request (model, token limit and temperature are fixed
  per service): \<open>None\<close> is an API error, \<open>Some cs\<close> the contents of \<open>resp.Choices\<close>.
  \<open>CreateEmbeddings\<close> likewise returns the vectors of \<open>resp.Data\<close>. \<open>SendMessage\<close> is the
  Gemini chat session of a system instruction and a history, sent the current message:
  \<open>Some cs\<close> holds the parts of each of \<open>resp.Candidates\<close>.
\<close>

record OpenAIService =
  CreateChatCompletion :: "ChatCompletionMessage list \<Rightarrow> string list option"
  CreateEmbeddings :: "string list \<Rightarrow> vector list option"

record GeminiService =
  gemini_model :: string
  SendMessage :: "string \<Rightarrow> genai_Content list \<Rightarrow> string \<Rightarrow> string list list option"

text \<open>
  The trace of a dispatch: each entry into \<open>callProvider\<close> and each request that reaches an
  external API, in order.
\<close>

datatype event =
    Call AIProvider
  | OpenAI_request "ChatCompletionMessage list"
  | Gemini_request string "genai_Content list" string

definition baseMessage :: string where
  "baseMessage =
     ''You are a helpful AI assistant for operational support. Your primary role is to help employees with questions about:\<newline>'' @
     ''- How to operate the application/webapp\<newline>'' @
     ''- Understanding error messages and their solutions\<newline>'' @
     ''- Role and permission requirements\<newline>'' @
     ''- Finding specific screens and features for processing orders and tasks\<newline>'' @
     ''- Operational procedures and best practices\<newline>'' @
     ''\<newline>'' @
     ''Guidelines:\<newline>'' @
     ''1. Always be helpful, accurate, and concise\<newline>'' @
     ''2. If you're not sure about something, say so\<newline>'' @
     ''3. Provide step-by-step instructions when helpful\<newline>'' @
     ''4. Reference specific screens, buttons, or features when relevant\<newline>'' @
     ''5. If the question is outside your knowledge base, suggest who the user should contact\<newline>'' @
     ''\<newline>''"

definition buildSystemMessage :: "string list \<Rightarrow> string" where
  "buildSystemMessage context =
     (if length context > 0
      then baseMessage @ ''Based on the following knowledge base information:\<newline>\<newline>''
           @ concat (map (\<lambda>(i, ctx). ''Knowledge '' @ decimal (i + 1) @ '':\<newline>'' @ ctx @ ''\<newline>\<newline>'')
                         (enumerate 0 context))
           @ ''Please answer the user's question using this information as context.''
      else baseMessage)"

definition OpenAIService_ChatCompletion ::
  "OpenAIService \<Rightarrow> OpenAIChatRequest \<Rightarrow> event list \<times> (error + OpenAIChatResponse)" where
  "OpenAIService_ChatCompletion s req =
     (let systemMessage = buildSystemMessage (oreq_Context req);
          messages = ChatCompletionMessage ''system'' systemMessage
                     # map (\<lambda>msg. ChatCompletionMessage (om_Role msg) (om_Content msg)) (oreq_Messages req)
      in ([OpenAI_request messages],
          case CreateChatCompletion s messages of
            None \<Rightarrow> Inl OpenAI_API_error
          | Some [] \<Rightarrow> Inl No_response_from_OpenAI
          | Some (choice # _) \<Rightarrow>
              Inr \<lparr>ores_Message = choice, ores_Sources = oreq_Context req,
                   ores_SessionID = oreq_SessionID req\<rparr>))"

definition CreateEmbedding :: "OpenAIService \<Rightarrow> string \<Rightarrow> error + vector" where
  "CreateEmbedding s text =
     (case CreateEmbeddings s [text] of
        None \<Rightarrow> Inl OpenAI_embedding_error
      | Some [] \<Rightarrow> Inl No_embedding_data_returned
      | Some (d # _) \<Rightarrow> Inr d)"

definition baseInstruction :: string where
  "baseInstruction =
     ''You are an AI assistant for a knowledge management system. You help employees find information and answer questions about operational procedures, troubleshooting, and company processes.\<newline>'' @
     ''\<newline>'' @
     ''Instructions:\<newline>'' @
     ''- Provide accurate, helpful, and concise responses\<newline>'' @
     ''- If you use information from the knowledge base, acknowledge the source\<newline>'' @
     ''- If you're unsure about something, say so rather than guessing\<newline>'' @
     ''- Format your responses clearly with bullet points or numbered lists when appropriate\<newline>'' @
     ''- Focus on practical, actionable advice''"

definition buildSystemInstruction :: "string list \<Rightarrow> string \<Rightarrow> string" where
  "buildSystemInstruction context customPrompt =
     baseInstruction
     @ (if customPrompt \<noteq> [] then ''\<newline>\<newline>Additional Instructions:\<newline>'' @ customPrompt else [])
     @ (if length context > 0
        then ''\<newline>\<newline>Relevant Knowledge Base Information:\<newline>''
             @ concat (map (\<lambda>(i, ctx). decimal (i + 1) @ ''. '' @ ctx @ ''\<newline>'') (enumerate 0 context))
             @ ''\<newline>Use this information to help answer the user's question when relevant.''
        else [])"

definition convertRole :: "string \<Rightarrow> string" where
  "convertRole role =
     (let r = ToLower role
      in if r = ''user'' then ''user''
         else if r = ''assistant'' \<or> r = ''model'' then ''model''
         else ''user'')"

text \<open>
  \<open>GeminiService.ChatCompletion\<close>. \<open>req.Messages[len(req.Messages)-1]\<close> panics on an empty
  message list; the system instruction is never empty, so it is always set.
\<close>

definition GeminiService_ChatCompletion ::
  "GeminiService \<Rightarrow> GeminiChatRequest \<Rightarrow> event list \<times> (error + GeminiChatResponse)" where
  "GeminiService_ChatCompletion s req =
     (let systemInstruction = buildSystemInstruction (greq_Context req) (greq_SystemPrompt req);
          history = (if length (greq_Messages req) > 1
                     then map (\<lambda>msg. genai_Content [gm_Content msg] (convertRole (gm_Role msg)))
                              (butlast (greq_Messages req))
                     else [])
      in case rev (greq_Messages req) of
           [] \<Rightarrow> ([], Inl Panic)
         | currentMessage # _ \<Rightarrow>
             ([Gemini_request systemInstruction history (gm_Content currentMessage)],
              case SendMessage s systemInstruction history (gm_Content currentMessage) of
                None \<Rightarrow> Inl Gemini_API_error
              | Some [] \<Rightarrow> Inl No_response_from_Gemini
              | Some (parts # _) \<Rightarrow>
                  Inr \<lparr>gres_Message = concat parts, gres_Sources = greq_Context req,
                       gres_SessionID = greq_SessionID req, gres_Model = gemini_model s\<rparr>))"

section \<open>UnifiedAIService\<close>

record UnifiedAIService =
  openAIService :: "OpenAIService option"
  geminiService :: "GeminiService option"
  primaryProvider :: AIProvider
  fallbackProvider :: AIProvider

definition NewUnifiedAIService ::
  "OpenAIService option \<Rightarrow> GeminiService option \<Rightarrow> AIProvider \<Rightarrow> UnifiedAIService" where
  "NewUnifiedAIService openAIService' geminiService' primaryProvider' =
     (let fallbackProvider' = (if primaryProvider' = GeminiProvider then OpenAIProvider else GeminiProvider)
      in \<lparr>openAIService = openAIService', geminiService = geminiService',
          primaryProvider = primaryProvider', fallbackProvider = fallbackProvider'\<rparr>)"

definition callOpenAI :: "UnifiedAIService \<Rightarrow> UnifiedChatRequest \<Rightarrow> event list \<times> (error + UnifiedChatResponse)" where
  "callOpenAI s req =
     (case openAIService s of
        None \<Rightarrow> ([], Inl OpenAI_service_not_available)
      | Some svc \<Rightarrow>
          (let openAIReq = \<lparr>oreq_Messages = map (\<lambda>msg. OpenAIChatMessage (um_Role msg) (um_Content msg)) (Messages req),
                            oreq_Context = Context req, oreq_SessionID = SessionID req,
                            oreq_UseKnowledgeBase = UseKnowledgeBase req\<rparr>;
               (log, r) = OpenAIService_ChatCompletion svc openAIReq
           in case r of
                Inl err \<Rightarrow> (log, Inl err)
              | Inr response \<Rightarrow>
                  (log, Inr \<lparr>Message = ores_Message response, Sources = ores_Sources response,
                             res_SessionID = ores_SessionID response, Provider = [], Model = ''openai''\<rparr>)))"

definition callGemini :: "UnifiedAIService \<Rightarrow> UnifiedChatRequest \<Rightarrow> event list \<times> (error + UnifiedChatResponse)" where
  "callGemini s req =
     (case geminiService s of
        None \<Rightarrow> ([], Inl Gemini_service_not_available)
      | Some svc \<Rightarrow>
          (let geminiReq = \<lparr>greq_Messages = map (\<lambda>msg. GeminiChatMessage (um_Role msg) (um_Content msg)) (Messages req),
                            greq_Context = Context req, greq_SessionID = SessionID req,
                            greq_UseKnowledgeBase = UseKnowledgeBase req,
                            greq_SystemPrompt = SystemPrompt req\<rparr>;
               (log, r) = GeminiService_ChatCompletion svc geminiReq
           in case r of
                Inl err \<Rightarrow> (log, Inl err)
              | Inr response \<Rightarrow>
                  (log, Inr \<lparr>Message = gres_Message response, Sources = gres_Sources response,
                             res_SessionID = gres_SessionID response, Provider = [],
                             Model = gres_Model response\<rparr>)))"

definition callProvider ::
  "UnifiedAIService \<Rightarrow> UnifiedChatRequest \<Rightarrow> AIProvider \<Rightarrow> event list \<times> (error + UnifiedChatResponse)" where
  "callProvider s req provider =
     (let (log, r) = (if provider = OpenAIProvider then callOpenAI s req
                      else if provider = GeminiProvider then callGemini s req
                      else ([], Inl (Unsupported_AI_provider provider)))
      in (Call provider # log, r))"

text \<open>
  \<open>UnifiedAIService.ChatCompletion\<close>. A panic of the adapter is not an \<open>error\<close> value: it
  unwinds through this function, so no fallback follows it.
\<close>

definition ChatCompletion ::
  "UnifiedAIService \<Rightarrow> UnifiedChatRequest \<Rightarrow> event list \<times> (error + UnifiedChatResponse)" where
  "ChatCompletion s req =
     (let provider = (if PreferredProvider req \<noteq> [] then PreferredProvider req else primaryProvider s);
          (log1, r1) = callProvider s req provider
      in case r1 of
           Inr response \<Rightarrow> (log1, Inr (response\<lparr>Provider := provider\<rparr>))
         | Inl err \<Rightarrow>
             if err = Panic then (log1, Inl Panic)
             else (let (log2, r2) = callProvider s req (fallbackProvider s)
                   in case r2 of
                        Inr response \<Rightarrow> (log1 @ log2, Inr (response\<lparr>Provider := fallbackProvider s\<rparr>))
                      | Inl err2 \<Rightarrow>
                          if err2 = Panic then (log1 @ log2, Inl Panic)
                          else (log1 @ log2, Inl (Both_AI_providers_failed provider (fallbackProvider s)))))"



definition GetPrimaryProvider :: "UnifiedAIService \<Rightarrow> AIProvider" where
  "GetPrimaryProvider s = primaryProvider s"

text \<open>The providers entered by a dispatch, in order.\<close>

definition calls :: "event list \<Rightarrow> AIProvider list" where
  "calls log = concat (map (\<lambda>e. case e of Call p \<Rightarrow> [p] | _ \<Rightarrow> []) log)"

text \<open>The provider first attempted by \<open>ChatCompletion\<close>: the request's preferred one, else the primary.\<close>

definition selectedProvider :: "UnifiedAIService \<Rightarrow> UnifiedChatRequest \<Rightarrow> AIProvider" where
  "selectedProvider s req = (if PreferredProvider req \<noteq> [] then PreferredProvider req else primaryProvider s)"

text \<open>Concrete services for the worked examples: an API that always fails, and one that answers.\<close>

definition openai_down :: OpenAIService where
  "openai_down = \<lparr>CreateChatCompletion = (\<lambda>_. None), CreateEmbeddings = (\<lambda>_. None)\<rparr>"

definition openai_up :: OpenAIService where
  "openai_up = \<lparr>CreateChatCompletion = (\<lambda>_. Some [''from openai'']),
                 CreateEmbeddings = (\<lambda>ts. Some (map (\<lambda>_. [1, 2]) ts))\<rparr>"

definition gemini_down :: GeminiService where
  "gemini_down = \<lparr>gemini_model = ''gemini-1.5-pro'', SendMessage = (\<lambda>_ _ _. None)\<rparr>"

definition gemini_up :: GeminiService where
  "gemini_up = \<lparr>gemini_model = ''gemini-1.5-pro'', SendMessage = (\<lambda>_ _ _. Some [[''from gemini'']])\<rparr>"

definition hello_request :: UnifiedChatRequest where
  "hello_request = \<lparr>Messages = [UnifiedChatMessage ''user'' ''hello''], Context = [], SessionID = 1,
                     UseKnowledgeBase = False, SystemPrompt = [], PreferredProvider = []\<rparr>"

section \<open>The relational store\<close>

text \<open>
  The columns of \<open>models\<close> that the modelled functions read or write. The JSON text of
  \<open>ChatMessage.Metadata\<close> is represented by the value it encodes: \<open>{}\<close> or the object that
  \<open>buildMetadata\<close> marshals from provider, model and sources.
\<close>

datatype metadata = Empty_object | Provider_metadata AIProvider string "string list"

record ChatSession =
  cs_ID :: uuid
  cs_UserID :: uuid
  cs_Title :: string
  cs_IsActive :: bool

record ChatMessage =
  cm_ID :: uuid
  cm_SessionID :: uuid
  cm_Role :: string
  cm_Content :: string
  cm_Metadata :: metadata

record KnowledgeEntry =
  ke_ID :: uuid
  ke_Title :: string
  ke_Content :: string
  ke_Summary :: string
  ke_IsPublished :: bool
  ke_Priority :: int
  ke_ViewCount :: int

record VectorEmbedding =
  ve_ID :: uuid
  ve_KnowledgeEntryID :: uuid
  ve_VectorID :: uuid
  ve_ChunkIndex :: nat
  ve_ChunkText :: string

definition UserMessage :: string where "UserMessage = ''user''"
definition AssistantMessage :: string where "AssistantMessage = ''assistant''"
definition SystemMessage :: string where "SystemMessage = ''system''"

text \<open>
  Each statement that the services send to the database can fail (connection lost, constraint
  violated, ...). The places where the code checks \<open>.Error\<close> are the sites below; \<open>failing\<close>
  says at which of them the database answers with an error.
\<close>

datatype db_site =
    Find_session
  | Create_session
  | Create_user_message
  | Find_recent_messages
  | Create_assistant_message
  | Find_entries_by_ids
  | Find_entries_by_text
  | Tx_create_entry
  | Tx_save_entry
  | Tx_delete_embeddings
  | Tx_create_embedding nat
  | Tx_delete_entry
  | Tx_commit

text \<open>
  The tables hold their visible rows (a soft-deleted row is gone from them) in the order of
  creation, so \<open>ORDER BY created_at DESC\<close> on \<open>chat_messages\<close> is the reversed table.
\<close>

record DB =
  chat_sessions :: "ChatSession list"
  chat_messages :: "ChatMessage list"
  knowledge_entries :: "KnowledgeEntry list"
  vector_embeddings :: "VectorEmbedding list"
  failing :: "db_site \<Rightarrow> bool"

text \<open>
  The column default \<open>gen_random_uuid()\<close>: an identifier that no row of the table has (the
  primary key makes it so) and that is not \<open>uuid.Nil\<close>.
\<close>

definition gen_random_uuid :: "uuid list \<Rightarrow> uuid" where
  "gen_random_uuid used = Suc (fold max used 0)"

section \<open>VectorService\<close>

datatype http_result = Transport_error | Status nat

record QdrantPoint =
  qp_ID :: uuid
  qp_Vector :: vector
  qp_text :: string
  qp_knowledge_entry_id :: uuid

record VectorSearchResult =
  vr_KnowledgeEntryID :: uuid
  vr_ChunkText :: string

text \<open>
  The vector index is reached over HTTP: \<open>put_points\<close> is the outcome of the \<open>PUT\<close> of one
  point, and \<open>uuid_New n\<close> the identifier that the \<open>n\<close>-th \<open>uuid.New()\<close> of a call draws.
\<close>

record VectorService =
  put_points :: "QdrantPoint \<Rightarrow> http_result"
  uuid_New :: "nat \<Rightarrow> uuid"

definition Store :: "VectorService \<Rightarrow> nat \<Rightarrow> vector \<Rightarrow> string \<Rightarrow> uuid \<Rightarrow> error + uuid" where
  "Store s n vec text knowledgeEntryID =
     (let pointID = uuid_New s n;
          point = \<lparr>qp_ID = pointID, qp_Vector = vec, qp_text = text,
                   qp_knowledge_entry_id = knowledgeEntryID\<rparr>
      in case put_points s point of
           Transport_error \<Rightarrow> Inl Http_transport_error
         | Status code \<Rightarrow> if code \<noteq> 200 then Inl (Failed_to_store_vector code) else Inr pointID)"

definition VectorService_Search :: "VectorService \<Rightarrow> string \<Rightarrow> int \<Rightarrow> error + VectorSearchResult list" where
  "VectorService_Search s query limit = Inl Search_by_text_not_implemented"

section \<open>The pattern match of the text search\<close>

text \<open>
  PostgreSQL's \<open>LIKE\<close>: \<open>%\<close> matches any run of characters, \<open>_\<close> any one character, a
  backslash takes the next pattern character literally. \<open>ILIKE\<close> is \<open>LIKE\<close> without regard to
  the case of (here: ASCII) letters. A pattern ending in a lone backslash is an error in
  PostgreSQL; the patterns built below end in \<open>%\<close>.
\<close>

fun like :: "string \<Rightarrow> string \<Rightarrow> bool" where
  "like [] s = (s = [])"
| "like (p # ps) s =
     (if p = CHR ''%'' then like ps s \<or> (case s of [] \<Rightarrow> False | _ # t \<Rightarrow> like (p # ps) t)
      else if p = CHR ''_'' then (case s of [] \<Rightarrow> False | _ # t \<Rightarrow> like ps t)
      else if p = CHR 0x5C then
        (case ps of [] \<Rightarrow> False
         | q # qs \<Rightarrow> (case s of [] \<Rightarrow> False | c # t \<Rightarrow> c = q \<and> like qs t))
      else (case s of [] \<Rightarrow> False | c # t \<Rightarrow> c = p \<and> like ps t))"

definition ilike :: "string \<Rightarrow> string \<Rightarrow> bool" where
  "ilike s pattern = like (ToLower pattern) (ToLower s)"

text \<open>A query without the three characters that \<open>LIKE\<close> reads specially.\<close>

definition plain :: "string \<Rightarrow> bool" where
  "plain q = (CHR ''%'' \<notin> set q \<and> CHR ''_'' \<notin> set q \<and> CHR 0x5C \<notin> set q)"

section \<open>KnowledgeService\<close>

record KnowledgeService =
  ks_openAIService :: "OpenAIService option"
  ks_vectorService :: "VectorService option"

text \<open>
  \<open>WHERE id IN ? AND is_published = true\<close>, the query of the vector branch, and the
  \<open>WHERE\<close>, \<open>ORDER BY priority DESC, view_count DESC\<close> and \<open>LIMIT\<close> of the text branch.
  The sort is stable; a \<open>LIMIT\<close> that is not positive yields no row.
\<close>

definition find_published_by_ids :: "DB \<Rightarrow> uuid list \<Rightarrow> KnowledgeEntry list" where
  "find_published_by_ids db entryIDs =
     filter (\<lambda>e. ke_ID e \<in> set entryIDs \<and> ke_IsPublished e = True) (knowledge_entries db)"

definition text_match :: "string \<Rightarrow> KnowledgeEntry \<Rightarrow> bool" where
  "text_match searchTerm e =
     (ke_IsPublished e = True
      \<and> (ilike (ke_Title e) searchTerm \<or> ilike (ke_Content e) searchTerm \<or> ilike (ke_Summary e) searchTerm))"

definition find_by_text :: "DB \<Rightarrow> string \<Rightarrow> int \<Rightarrow> KnowledgeEntry list" where
  "find_by_text db searchTerm limit =
     take (nat limit)
       (sort_key (\<lambda>e. (- ke_Priority e, - ke_ViewCount e))
          (filter (text_match searchTerm) (knowledge_entries db)))"

text \<open>
  \<open>SearchKnowledgeEntries\<close> returns the entries together with the error, as the Go function
  does; it leaves the database as it is.
\<close>

definition text_search :: "DB \<Rightarrow> string \<Rightarrow> int \<Rightarrow> KnowledgeEntry list \<times> error option" where
  "text_search db query limit =
     (let searchTerm = ''%'' @ query @ ''%''
      in if failing db Find_entries_by_text then ([], Some DB_error)
         else (find_by_text db searchTerm limit, None))"

definition SearchKnowledgeEntries ::
  "KnowledgeService \<Rightarrow> DB \<Rightarrow> string \<Rightarrow> int \<Rightarrow> KnowledgeEntry list \<times> error option" where
  "SearchKnowledgeEntries s db query limit =
     (case ks_vectorService s of
        None \<Rightarrow> text_search db query limit
      | Some vs \<Rightarrow>
          (case VectorService_Search vs query limit of
             Inl err \<Rightarrow> text_search db query limit
           | Inr vectorResults \<Rightarrow>
               if length vectorResults > 0
               then (let entryIDs = map vr_KnowledgeEntryID vectorResults
                     in if failing db Find_entries_by_ids then text_search db query limit
                        else (find_published_by_ids db entryIDs, None))
               else text_search db query limit))"

text \<open>The embedding lifecycle. \<open>fullText\<close> is the text that \<open>createEmbeddings\<close> chunks.\<close>

definition fullText :: "KnowledgeEntry \<Rightarrow> string" where
  "fullText entry =
     (let fullText = ke_Title entry @ ''\<newline>\<newline>'' @ ke_Content entry
      in if ke_Summary entry \<noteq> [] then ke_Summary entry @ ''\<newline>\<newline>'' @ fullText else fullText)"

text \<open>
  The loop of \<open>createEmbeddings\<close> from chunk index \<open>i\<close> on, writing into the transaction
  \<open>tx\<close>. A \<open>nil\<close> service makes \<open>CreateEmbedding\<close> or \<open>Store\<close> dereference a nil pointer:
  a panic (\<open>ChunkText\<close> never touches its receiver).
\<close>

fun createEmbeddings_loop :: "KnowledgeService \<Rightarrow> KnowledgeEntry \<Rightarrow> nat \<Rightarrow> string list \<Rightarrow> DB \<Rightarrow> error + DB" where
  "createEmbeddings_loop s entry i [] tx = Inr tx"
| "createEmbeddings_loop s entry i (chunk # chunks) tx =
     (case ks_openAIService s of
        None \<Rightarrow> Inl Panic
      | Some openai \<Rightarrow>
          (case CreateEmbedding openai chunk of
             Inl err \<Rightarrow> Inl err
           | Inr embedding \<Rightarrow>
               (case ks_vectorService s of
                  None \<Rightarrow> Inl Panic
                | Some vs \<Rightarrow>
                    (case Store vs i embedding chunk (ke_ID entry) of
                       Inl err \<Rightarrow> Inl err
                     | Inr vectorID \<Rightarrow>
                         if failing tx (Tx_create_embedding i) then Inl DB_error
                         else createEmbeddings_loop s entry (i + 1) chunks
                                (tx\<lparr>vector_embeddings := vector_embeddings tx @
                                     [\<lparr>ve_ID = gen_random_uuid (map ve_ID (vector_embeddings tx)),
                                       ve_KnowledgeEntryID = ke_ID entry, ve_VectorID = vectorID,
                                       ve_ChunkIndex = i, ve_ChunkText = chunk\<rparr>]\<rparr>)))))"

definition createEmbeddings :: "KnowledgeService \<Rightarrow> DB \<Rightarrow> KnowledgeEntry \<Rightarrow> error + DB" where
  "createEmbeddings s tx entry = createEmbeddings_loop s entry 0 (ChunkText (fullText entry) 1000) tx"

text \<open>
  \<open>tx.Create(entry)\<close>: a \<open>uuid.Nil\<close> key is replaced by the column default, a key that a
  row already has is refused. \<open>tx.Save(entry)\<close>: the row with the entry's key is replaced,
  or the entry is inserted if there is none. Both write the key back into \<open>entry\<close>. The
  default key is new to the embeddings table as well.
\<close>

definition used_entry_ids :: "DB \<Rightarrow> uuid list" where
  "used_entry_ids db = map ke_ID (knowledge_entries db) @ map ve_KnowledgeEntryID (vector_embeddings db)"

definition with_key :: "DB \<Rightarrow> KnowledgeEntry \<Rightarrow> KnowledgeEntry" where
  "with_key db entry =
     (if ke_ID entry = 0 then entry\<lparr>ke_ID := gen_random_uuid (used_entry_ids db)\<rparr> else entry)"

definition tx_Create_entry :: "DB \<Rightarrow> KnowledgeEntry \<Rightarrow> error + DB \<times> KnowledgeEntry" where
  "tx_Create_entry tx entry =
     (let entry = with_key tx entry
      in if failing tx Tx_create_entry \<or> ke_ID entry \<in> set (map ke_ID (knowledge_entries tx))
         then Inl DB_error
         else Inr (tx\<lparr>knowledge_entries := knowledge_entries tx @ [entry]\<rparr>, entry))"

definition tx_Save_entry :: "DB \<Rightarrow> KnowledgeEntry \<Rightarrow> error + DB \<times> KnowledgeEntry" where
  "tx_Save_entry tx entry =
     (let entry = with_key tx entry
      in if failing tx Tx_save_entry then Inl DB_error
         else if ke_ID entry \<in> set (map ke_ID (knowledge_entries tx))
         then Inr (tx\<lparr>knowledge_entries :=
                        map (\<lambda>row. if ke_ID row = ke_ID entry then entry else row) (knowledge_entries tx)\<rparr>,
                   entry)
         else Inr (tx\<lparr>knowledge_entries := knowledge_entries tx @ [entry]\<rparr>, entry))"

definition tx_Delete_embeddings :: "DB \<Rightarrow> uuid \<Rightarrow> error + DB" where
  "tx_Delete_embeddings tx knowledgeEntryID =
     (if failing tx Tx_delete_embeddings then Inl DB_error
      else Inr (tx\<lparr>vector_embeddings :=
                     filter (\<lambda>row. ve_KnowledgeEntryID row \<noteq> knowledgeEntryID) (vector_embeddings tx)\<rparr>))"

definition tx_Delete_entry :: "DB \<Rightarrow> uuid \<Rightarrow> error + DB" where
  "tx_Delete_entry tx entryID =
     (if failing tx Tx_delete_entry then Inl DB_error
      else Inr (tx\<lparr>knowledge_entries := filter (\<lambda>row. ke_ID row \<noteq> entryID) (knowledge_entries tx)\<rparr>))"

text \<open>
  The three operations run in a transaction begun on \<open>db\<close>: the result is \<open>db\<close> itself
  after \<open>tx.Rollback()\<close> or a failed commit, and the transaction's state after a commit.
  The deferred \<open>recover()\<close> rolls back on a panic and lets the function return its zero
  result, the \<open>nil\<close> error.
\<close>

definition tx_Commit :: "DB \<Rightarrow> DB \<Rightarrow> DB \<times> error option" where
  "tx_Commit db tx = (if failing tx Tx_commit then (db, Some DB_error) else (tx, None))"

definition rolled_back :: "DB \<Rightarrow> error \<Rightarrow> DB \<times> error option" where
  "rolled_back db err = (if err = Panic then (db, None) else (db, Some err))"

definition CreateKnowledgeEntry :: "KnowledgeService \<Rightarrow> DB \<Rightarrow> KnowledgeEntry \<Rightarrow> DB \<times> error option" where
  "CreateKnowledgeEntry s db entry =
     (case tx_Create_entry db entry of
        Inl err \<Rightarrow> rolled_back db err
      | Inr (tx, entry) \<Rightarrow>
          if ke_IsPublished entry
          then (case createEmbeddings s tx entry of
                  Inl err \<Rightarrow> rolled_back db err
                | Inr tx \<Rightarrow> tx_Commit db tx)
          else tx_Commit db tx)"

definition UpdateKnowledgeEntry :: "KnowledgeService \<Rightarrow> DB \<Rightarrow> KnowledgeEntry \<Rightarrow> DB \<times> error option" where
  "UpdateKnowledgeEntry s db entry =
     (case tx_Save_entry db entry of
        Inl err \<Rightarrow> rolled_back db err
      | Inr (tx, entry) \<Rightarrow>
          if ke_IsPublished entry
          then (case tx_Delete_embeddings tx (ke_ID entry) of
                  Inl err \<Rightarrow> rolled_back db err
                | Inr tx \<Rightarrow>
                    (case createEmbeddings s tx entry of
                       Inl err \<Rightarrow> rolled_back db err
                     | Inr tx \<Rightarrow> tx_Commit db tx))
          else tx_Commit db tx)"

definition DeleteKnowledgeEntry :: "KnowledgeService \<Rightarrow> DB \<Rightarrow> uuid \<Rightarrow> DB \<times> error option" where
  "DeleteKnowledgeEntry s db id' =
     (case tx_Delete_embeddings db id' of
        Inl err \<Rightarrow> rolled_back db err
      | Inr tx \<Rightarrow>
          (case tx_Delete_entry tx id' of
             Inl err \<Rightarrow> rolled_back db err
           | Inr tx \<Rightarrow> tx_Commit db tx))"

text \<open>The \<open>VectorEmbedding\<close> rows of one entry, and the rows that its chunks call for.\<close>

definition rows_of :: "DB \<Rightarrow> uuid \<Rightarrow> VectorEmbedding list" where
  "rows_of db entryID = filter (\<lambda>row. ve_KnowledgeEntryID row = entryID) (vector_embeddings db)"

definition chunk_rows :: "VectorEmbedding list \<Rightarrow> (nat \<times> string) list" where
  "chunk_rows rows = map (\<lambda>row. (ve_ChunkIndex row, ve_ChunkText row)) rows"

section \<open>EnhancedChatService\<close>

record EnhancedChatService =
  unifiedAIService :: UnifiedAIService
  knowledgeService :: KnowledgeService

record EnhancedChatRequest =
  req_Message :: string
  req_SessionID :: "uuid option"
  req_UserID :: uuid
  req_PreferredProvider :: AIProvider
  req_SystemPrompt :: string

text \<open>\<open>CreatedAt\<close>, the formatted time of the assistant message, is left out of the response.\<close>

record EnhancedChatResponse =
  Response :: string
  resp_SessionID :: uuid
  resp_Sources :: "uuid list"
  resp_Provider :: AIProvider
  resp_Model :: string

text \<open>
  \<open>getOrCreateSession\<close>: \<open>First\<close> reports an error both when no row matches and when the
  query fails; either way the code goes on to create a session.
\<close>

definition find_session :: "DB \<Rightarrow> uuid \<Rightarrow> uuid \<Rightarrow> ChatSession option" where
  "find_session db sessionID userID =
     (if failing db Find_session then None
      else find (\<lambda>row. cs_ID row = sessionID \<and> cs_UserID row = userID \<and> cs_IsActive row = True)
             (chat_sessions db))"

definition create_session :: "DB \<Rightarrow> uuid \<Rightarrow> DB \<times> (error + ChatSession)" where
  "create_session db userID =
     (let session = \<lparr>cs_ID = gen_random_uuid (map cs_ID (chat_sessions db)), cs_UserID = userID,
                     cs_Title = ''New Chat'', cs_IsActive = True\<rparr>
      in if failing db Create_session then (db, Inl DB_error)
         else (db\<lparr>chat_sessions := chat_sessions db @ [session]\<rparr>, Inr session))"

definition getOrCreateSession :: "DB \<Rightarrow> uuid \<Rightarrow> uuid option \<Rightarrow> DB \<times> (error + ChatSession)" where
  "getOrCreateSession db userID sessionID =
     (case sessionID of
        None \<Rightarrow> create_session db userID
      | Some sid \<Rightarrow>
          (case find_session db sid userID of
             Some session \<Rightarrow> (db, Inr session)
           | None \<Rightarrow> create_session db userID))"

text \<open>\<open>s.db.Create\<close> of a message whose key is the column default.\<close>

definition new_message :: "DB \<Rightarrow> uuid \<Rightarrow> string \<Rightarrow> string \<Rightarrow> metadata \<Rightarrow> ChatMessage" where
  "new_message db sessionID role content meta =
     \<lparr>cm_ID = gen_random_uuid (map cm_ID (chat_messages db)), cm_SessionID = sessionID,
      cm_Role = role, cm_Content = content, cm_Metadata = meta\<rparr>"

definition insert_message :: "DB \<Rightarrow> ChatMessage \<Rightarrow> DB" where
  "insert_message db msg = db\<lparr>chat_messages := chat_messages db @ [msg]\<rparr>"

definition getRecentMessages :: "DB \<Rightarrow> uuid \<Rightarrow> nat \<Rightarrow> error + ChatMessage list" where
  "getRecentMessages db sessionID limit =
     (if failing db Find_recent_messages then Inl DB_error
      else Inr (take limit (rev (filter (\<lambda>m. cm_SessionID m = sessionID) (chat_messages db)))))"

definition buildMetadata :: "AIProvider \<Rightarrow> string \<Rightarrow> string list \<Rightarrow> metadata" where
  "buildMetadata provider model sources = Provider_metadata provider model sources"

text \<open>
  The block of \<open>EnhancedChatService.ProcessChat\<close> that builds the messages for the AI
  service from the rows fetched, the key of the message just stored and the request text.
\<close>

definition history_message :: "ChatMessage \<Rightarrow> UnifiedChatMessage" where
  "history_message msg =
     (let role = cm_Role msg;
          role = (if role = ''assistant'' then ''model'' else role)
      in UnifiedChatMessage role (cm_Content msg))"

definition build_messages :: "ChatMessage list \<Rightarrow> uuid \<Rightarrow> string \<Rightarrow> UnifiedChatMessage list" where
  "build_messages recentMessages userMessageID message =
     map history_message (filter (\<lambda>msg. cm_ID msg \<noteq> userMessageID) recentMessages)
     @ [UnifiedChatMessage ''user'' message]"

text \<open>
  \<open>EnhancedChatService.ProcessChat\<close> in its two halves. \<open>ProcessChat_request\<close> is the code
  down to \<open>// Create AI request\<close>: it resolves the session, stores the user message,
  searches the knowledge base and assembles the request; it returns the new database state
  with the error or with the session, the stored user message, the entries found and the
  request. \<open>EnhancedChatService_ProcessChat\<close> then dispatches the request and stores the
  answer; it returns the new database state, the trace of the dispatch, and the response or
  the error.
\<close>

definition ProcessChat_request ::
  "EnhancedChatService \<Rightarrow> DB \<Rightarrow> EnhancedChatRequest
     \<Rightarrow> DB \<times> (error + ChatSession \<times> ChatMessage \<times> KnowledgeEntry list \<times> UnifiedChatRequest)" where
  "ProcessChat_request s db req =
     (case getOrCreateSession db (req_UserID req) (req_SessionID req) of
        (db, Inl err) \<Rightarrow> (db, Inl err)
      | (db, Inr session) \<Rightarrow>
          (let userMessage = new_message db (cs_ID session) ''user'' (req_Message req) Empty_object
           in if failing db Create_user_message then (db, Inl DB_error)
              else
                (let db = insert_message db userMessage;
                     knowledgeEntries = fst (SearchKnowledgeEntries (knowledgeService s) db (req_Message req) 3);
                     context = map (\<lambda>entry. ke_Title entry @ '': '' @ ke_Content entry) knowledgeEntries;
                     recentMessages = (case getRecentMessages db (cs_ID session) 10 of
                                         Inl err \<Rightarrow> []
                                       | Inr ms \<Rightarrow> ms);
                     messages = build_messages recentMessages (cm_ID userMessage) (req_Message req);
                     aiRequest = \<lparr>Messages = messages, Context = context, SessionID = cs_ID session,
                                   UseKnowledgeBase = (length context > 0),
                                   SystemPrompt = req_SystemPrompt req,
                                   PreferredProvider = req_PreferredProvider req\<rparr>
                 in (db, Inr (session, userMessage, knowledgeEntries, aiRequest)))))"

definition EnhancedChatService_ProcessChat ::
  "EnhancedChatService \<Rightarrow> DB \<Rightarrow> EnhancedChatRequest \<Rightarrow> DB \<times> event list \<times> (error + EnhancedChatResponse)" where
  "EnhancedChatService_ProcessChat s db req =
     (case ProcessChat_request s db req of
        (db, Inl err) \<Rightarrow> (db, [], Inl err)
      | (db, Inr (session, userMessage, knowledgeEntries, aiRequest)) \<Rightarrow>
          (case ChatCompletion (unifiedAIService s) aiRequest of
             (log, Inl err) \<Rightarrow> (db, log, Inl err)
           | (log, Inr aiResponse) \<Rightarrow>
               (let assistantMessage =
                      new_message db (cs_ID session) ''assistant'' (Message aiResponse)
                        (buildMetadata (Provider aiResponse) (Model aiResponse) (Sources aiResponse))
                in if failing db Create_assistant_message then (db, log, Inl DB_error)
                   else (insert_message db assistantMessage, log,
                         Inr \<lparr>Response = Message aiResponse, resp_SessionID = cs_ID session,
                              resp_Sources = map ke_ID knowledgeEntries,
                              resp_Provider = Provider aiResponse,
                              resp_Model = Model aiResponse\<rparr>))))"

section \<open>ChatService\<close>

text \<open>
  The older \<open>ChatService\<close> talks to the OpenAI service alone. Its \<open>getOrCreateSession\<close> has
  the body of the one above. Its history loop runs over the fetched rows from the last index
  down and passes the stored role on unchanged; a failed fetch leaves \<open>recentMessages\<close> empty.
  \<open>ProcessChat\<close> is split as above, at \<open>// Call OpenAI\<close>.
\<close>

record ChatService =
  chat_openAIService :: OpenAIService
  chat_knowledgeService :: KnowledgeService

record ChatRequest =
  creq_Message :: string
  creq_SessionID :: "uuid option"
  creq_UserID :: uuid

record ChatResponse =
  cres_Message :: string
  cres_SessionID :: uuid
  cres_Sources :: "string list"

definition ChatService_getOrCreateSession :: "DB \<Rightarrow> uuid \<Rightarrow> uuid option \<Rightarrow> DB \<times> (error + ChatSession)" where
  "ChatService_getOrCreateSession db userID sessionID =
     (case sessionID of
        None \<Rightarrow> create_session db userID
      | Some sid \<Rightarrow>
          (case find_session db sid userID of
             Some session \<Rightarrow> (db, Inr session)
           | None \<Rightarrow> create_session db userID))"

definition ChatService_build_messages :: "ChatMessage list \<Rightarrow> uuid \<Rightarrow> string \<Rightarrow> OpenAIChatMessage list" where
  "ChatService_build_messages recentMessages userMessageID message =
     map (\<lambda>msg. OpenAIChatMessage (cm_Role msg) (cm_Content msg))
         (filter (\<lambda>msg. cm_ID msg \<noteq> userMessageID) (rev recentMessages))
     @ [OpenAIChatMessage UserMessage message]"

definition ChatService_ProcessChat_request ::
  "ChatService \<Rightarrow> DB \<Rightarrow> ChatRequest
     \<Rightarrow> DB \<times> (error + ChatSession \<times> ChatMessage \<times> string list \<times> OpenAIChatRequest)" where
  "ChatService_ProcessChat_request s db req =
     (case ChatService_getOrCreateSession db (creq_UserID req) (creq_SessionID req) of
        (db, Inl err) \<Rightarrow> (db, Inl err)
      | (db, Inr session) \<Rightarrow>
          (let userMessage = new_message db (cs_ID session) UserMessage (creq_Message req) Empty_object
           in if failing db Create_user_message then (db, Inl DB_error)
              else
                (let db = insert_message db userMessage;
                     knowledgeEntries =
                       (case SearchKnowledgeEntries (chat_knowledgeService s) db (creq_Message req) 5 of
                          (entries, None) \<Rightarrow> entries
                        | (entries, Some err) \<Rightarrow> []);
                     context = map (\<lambda>entry. ke_Title entry @ ''\<newline>'' @ ke_Content entry) knowledgeEntries;
                     sources = map ke_Title knowledgeEntries;
                     recentMessages = (case getRecentMessages db (cs_ID session) 10 of
                                         Inl err \<Rightarrow> []
                                       | Inr ms \<Rightarrow> ms);
                     openAIMessages = ChatService_build_messages recentMessages (cm_ID userMessage) (creq_Message req);
                     openAIReq = \<lparr>oreq_Messages = openAIMessages, oreq_Context = context,
                                   oreq_SessionID = cs_ID session,
                                   oreq_UseKnowledgeBase = (length context > 0)\<rparr>
                 in (db, Inr (session, userMessage, sources, openAIReq)))))"

definition ChatService_ProcessChat ::
  "ChatService \<Rightarrow> DB \<Rightarrow> ChatRequest \<Rightarrow> DB \<times> event list \<times> (error + ChatResponse)" where
  "ChatService_ProcessChat s db req =
     (case ChatService_ProcessChat_request s db req of
        (db, Inl err) \<Rightarrow> (db, [], Inl err)
      | (db, Inr (session, userMessage, sources, openAIReq)) \<Rightarrow>
          (case OpenAIService_ChatCompletion (chat_openAIService s) openAIReq of
             (log, Inl err) \<Rightarrow> (db, log, Inl err)
           | (log, Inr response) \<Rightarrow>
               (let assistantMessage =
                      new_message db (cs_ID session) AssistantMessage (ores_Message response) Empty_object
                in if failing db Create_assistant_message then (db, log, Inl DB_error)
                   else (insert_message db assistantMessage, log,
                         Inr \<lparr>cres_Message = ores_Message response, cres_SessionID = cs_ID session,
                              cres_Sources = sources\<rparr>))))"

text \<open>
  What reached the external APIs as conversation, read off a trace: the role and content of
  every message sent, the system message of OpenAI aside.
\<close>

fun sent :: "event \<Rightarrow> (string \<times> string) list" where
  "sent (Call p) = []"
| "sent (OpenAI_request messages) = map (\<lambda>m. (wire_Role m, wire_Content m)) (tl messages)"
| "sent (Gemini_request systemInstruction history current) =
     map (\<lambda>c. (genai_Role c, concat (genai_Parts c))) history @ [(''user'', current)]"


section \<open>Worked examples\<close>

text \<open>
  A store that answers every statement, a user \<open>7\<close> with one active session \<open>1\<close>, and a
  conversation of eleven stored messages \<open>m1\<close> ... \<open>m11\<close> in that session.
\<close>

definition turn :: "nat \<Rightarrow> ChatMessage" where
  "turn n = \<lparr>cm_ID = n, cm_SessionID = 1,
             cm_Role = (if odd n then ''user'' else ''assistant''),
             cm_Content = CHR ''m'' # decimal n, cm_Metadata = Empty_object\<rparr>"

definition no_failure :: "db_site \<Rightarrow> bool" where
  "no_failure site = False"

definition db_11 :: DB where
  "db_11 = \<lparr>chat_sessions = [\<lparr>cs_ID = 1, cs_UserID = 7, cs_Title = ''New Chat'', cs_IsActive = True\<rparr>],
            chat_messages = map turn [1, 2, 3, 4, 5, 6, 7, 8, 9, 10, 11],
            knowledge_entries = [], vector_embeddings = [], failing = no_failure\<rparr>"

definition db_2 :: DB where
  "db_2 = \<lparr>chat_sessions = [\<lparr>cs_ID = 1, cs_UserID = 7, cs_Title = ''New Chat'', cs_IsActive = True\<rparr>],
           chat_messages = map turn [1, 2],
           knowledge_entries = [], vector_embeddings = [], failing = no_failure\<rparr>"

definition no_services :: KnowledgeService where
  "no_services = \<lparr>ks_openAIService = None, ks_vectorService = None\<rparr>"

definition enhanced :: "OpenAIService \<Rightarrow> GeminiService \<Rightarrow> EnhancedChatService" where
  "enhanced oa ge = \<lparr>unifiedAIService = NewUnifiedAIService (Some oa) (Some ge) OpenAIProvider,
                     knowledgeService = no_services\<rparr>"

definition ask :: "string \<Rightarrow> uuid option \<Rightarrow> AIProvider \<Rightarrow> EnhancedChatRequest" where
  "ask message sessionID provider =
     \<lparr>req_Message = message, req_SessionID = sessionID, req_UserID = 7,
      req_PreferredProvider = provider, req_SystemPrompt = []\<rparr>"

section \<open>Word-preservation of the chunking loop\<close>


lemma Fields_Nil: "Fields [] = []"
  by (simp add: Fields.simps)

lemma Fields_space_Cons: "isSpace c \<Longrightarrow> Fields (c # s) = Fields s"
  by (simp add: Fields.simps [of "c # s"] Fields.simps [of s])

lemma Fields_word_Cons:
  "\<not> isSpace c \<Longrightarrow>
   Fields (c # s) = (c # takeWhile (\<lambda>x. \<not> isSpace x) s) # Fields (dropWhile (\<lambda>x. \<not> isSpace x) s)"
  by (simp add: Fields.simps [of "c # s"])

lemma Fields_word: "Fields w = [w]" if "w \<noteq> []" "\<forall>c\<in>set w. \<not> isSpace c"
proof (cases w)
  case Nil
  then show ?thesis using that by simp
next
  case (Cons c r)
  with that have "\<not> isSpace c" and r: "\<forall>x\<in>set r. \<not> isSpace x" by simp_all
  then have tk: "takeWhile (\<lambda>x. \<not> isSpace x) r = r" and dr: "dropWhile (\<lambda>x. \<not> isSpace x) r = []"
    by simp_all
  show ?thesis
    unfolding Cons Fields_word_Cons [OF \<open>\<not> isSpace c\<close>] tk dr Fields_Nil ..
qed

lemma Fields_all_space: "\<forall>c\<in>set s. isSpace c \<Longrightarrow> Fields s = []"
  by (induction s) (simp_all add: Fields_Nil Fields_space_Cons)

lemma Fields_append_space:
  "isSpace sp \<Longrightarrow> Fields (a @ sp # b) = Fields a @ Fields b"
proof (induction a rule: length_induct)
  case (1 a)
  show ?case
  proof (cases a)
    case Nil
    with 1 show ?thesis by (simp add: Fields_Nil Fields_space_Cons)
  next
    case (Cons c r)
    show ?thesis
    proof (cases "isSpace c")
      case True
      with 1 Cons show ?thesis by (simp add: Fields_space_Cons)
    next
      case False
      let ?d = "dropWhile (\<lambda>x. \<not> isSpace x) r"
      have t: "takeWhile (\<lambda>x. \<not> isSpace x) (r @ sp # b) = takeWhile (\<lambda>x. \<not> isSpace x) r"
        using 1(2) by (induction r) simp_all
      have d: "dropWhile (\<lambda>x. \<not> isSpace x) (r @ sp # b) = ?d @ sp # b"
        using 1(2) by (induction r) simp_all
      have "length ?d < length a"
        using Cons by (simp add: le_imp_less_Suc length_dropWhile_le)
      then have "Fields (?d @ sp # b) = Fields ?d @ Fields b"
        using 1 by blast
      with False Cons t d show ?thesis
        by (simp add: Fields_word_Cons)
    qed
  qed
qed

lemma Fields_append_spaces: "\<forall>c\<in>set t. isSpace c \<Longrightarrow> Fields (a @ t) = Fields a"
proof (induction t arbitrary: a)
  case Nil
  then show ?case by simp
next
  case (Cons c t)
  then show ?case
    by (simp add: Fields_append_space Fields_all_space)
qed

lemma Fields_dropWhile: "Fields (dropWhile isSpace s) = Fields s"
  by (induction s) (simp_all add: Fields_space_Cons)

lemma Fields_TrimSpace: "Fields (TrimSpace s) = Fields s"
proof -
  let ?d = "dropWhile isSpace s"
  have "?d = rev (dropWhile isSpace (rev ?d)) @ rev (takeWhile isSpace (rev ?d))"
    by (metis rev_append rev_rev_ident takeWhile_dropWhile_id)
  moreover have "\<forall>c\<in>set (rev (takeWhile isSpace (rev ?d))). isSpace c"
    by (auto dest: set_takeWhileD)
  ultimately have "Fields ?d = Fields (TrimSpace s)"
    unfolding TrimSpace_def by (metis Fields_append_spaces)
  then show ?thesis by (simp add: Fields_dropWhile)
qed

lemma Fields_proper: "w \<in> set (Fields s) \<Longrightarrow> w \<noteq> [] \<and> (\<forall>c\<in>set w. \<not> isSpace c)"
proof (induction s arbitrary: w rule: Fields.induct)
  case (1 s)
  show ?case
  proof (cases "dropWhile isSpace s")
    case Nil
    with 1(2) show ?thesis by (simp add: Fields.simps [of s])
  next
    case (Cons c r)
    then have c: "\<not> isSpace c"
      by (metis hd_dropWhile list.sel(1) list.distinct(1))
    from 1(2) Cons have "w = c # takeWhile (\<lambda>x. \<not> isSpace x) r \<or> w \<in> set (Fields (dropWhile (\<lambda>x. \<not> isSpace x) r))"
      by (simp add: Fields.simps [of s])
    then show ?thesis
    proof
      assume "w = c # takeWhile (\<lambda>x. \<not> isSpace x) r"
      with c show ?thesis by (auto dest: set_takeWhileD)
    next
      assume "w \<in> set (Fields (dropWhile (\<lambda>x. \<not> isSpace x) r))"
      with 1(1) Cons show ?thesis by blast
    qed
  qed
qed


lemma isSpace_blank: "isSpace CHR '' ''"
  by (simp add: isSpace_def)

lemma TrimSpace_nonempty: "Fields s \<noteq> [] \<Longrightarrow> TrimSpace s \<noteq> []"
  by (metis Fields_Nil Fields_TrimSpace)

lemma ChunkText_step_held:
  assumes "w \<noteq> []" "\<forall>c\<in>set w. \<not> isSpace c" "chunk_inv st"
  shows "held (ChunkText_step m st w) = held st @ [w] \<and> chunk_inv (ChunkText_step m st w)
         \<and> snd (ChunkText_step m st w) \<noteq> []"
proof -
  obtain chunks cur where st: "st = (chunks, cur)" by (cases st)
  have w: "Fields w = [w]" using assms(1,2) by (rule Fields_word)
  have j: "Fields (cur @ '' '' @ w) = Fields cur @ [w]"
    using Fields_append_space [OF isSpace_blank, of cur w] w by simp
  show ?thesis
    using assms(1,3) w j
    by (auto simp: ChunkText_step_def st held_def chunk_inv_def Fields_Nil Fields_TrimSpace
        dest: TrimSpace_nonempty)
qed

lemma ChunkText_loop_held:
  assumes "\<forall>w\<in>set ws. w \<noteq> [] \<and> (\<forall>c\<in>set w. \<not> isSpace c)" "chunk_inv st"
  shows "held (ChunkText_loop m ws st) = held st @ ws \<and> chunk_inv (ChunkText_loop m ws st)
         \<and> (ws \<noteq> [] \<longrightarrow> snd (ChunkText_loop m ws st) \<noteq> [])"
  using assms
proof (induction ws arbitrary: st)
  case Nil
  then show ?case by simp
next
  case (Cons w ws)
  then have s: "held (ChunkText_step m st w) = held st @ [w]" "chunk_inv (ChunkText_step m st w)"
     "snd (ChunkText_step m st w) \<noteq> []"
    using ChunkText_step_held [of w st m] by simp_all
  from Cons.IH [OF _ s(2)] Cons.prems(1)
  have "held (ChunkText_loop m ws (ChunkText_step m st w)) = held (ChunkText_step m st w) @ ws"
    and "chunk_inv (ChunkText_loop m ws (ChunkText_step m st w))"
    and "ws \<noteq> [] \<longrightarrow> snd (ChunkText_loop m ws (ChunkText_step m st w)) \<noteq> []"
    by simp_all
  with s show ?case by (cases ws) simp_all
qed

text \<open>
  C10. For every text and every \<open>maxChunkSize\<close>, the words of the chunks returned by
  \<open>ChunkText\<close>, concatenated in order, are exactly the words \<open>strings.Fields\<close> finds in
  the text; no returned chunk is empty; a text without words gives no chunk.
\<close>

theorem ChunkText_preserves_words:
  "concat (map Fields (ChunkText text maxChunkSize)) = Fields text
   \<and> [] \<notin> set (ChunkText text maxChunkSize)
   \<and> (Fields text = [] \<longrightarrow> ChunkText text maxChunkSize = [])"
proof -
  define m where "m = (if maxChunkSize \<le> 0 then 1000 else maxChunkSize)"
  define st where "st = ChunkText_loop m (Fields text) ([], [])"
  have i: "chunk_inv ([], [])" by (simp add: chunk_inv_def)
  have p: "\<forall>w\<in>set (Fields text). w \<noteq> [] \<and> (\<forall>c\<in>set w. \<not> isSpace c)"
    using Fields_proper by blast
  from ChunkText_loop_held [OF p i, of m]
  have h: "held st = Fields text" and c: "chunk_inv st"
    by (simp_all add: st_def held_def Fields_Nil)
  have ct: "ChunkText text maxChunkSize =
      (if Fields text = [] then [] else if snd st \<noteq> [] then fst st @ [TrimSpace (snd st)] else fst st)"
    by (simp add: ChunkText_def m_def st_def Let_def split: prod.splits)
  show ?thesis
    using h c
    by (auto simp: ct held_def chunk_inv_def Fields_TrimSpace Fields_Nil dest: TrimSpace_nonempty)
qed

theorem ChunkText_preserves_words_witness:
  "Fields ''  '' = [] \<and> ChunkText ''  '' 5 = []
   \<and> ChunkText ''Alpha Beta  Gamma'' 11 = [''Alpha Beta'', ''Gamma'']
   \<and> Fields ''Alpha Beta  Gamma'' = [''Alpha'', ''Beta'', ''Gamma'']"
  using ChunkText_preserves_words [of "''  ''" 5]
  by (simp add: Fields.simps isSpace_def ChunkText_def ChunkText_step_def TrimSpace_def)

section \<open>The two-shot dispatch\<close>


lemma calls_Nil [simp]: "calls [] = []"
  by (simp add: calls_def)

lemma calls_append [simp]: "calls (a @ b) = calls a @ calls b"
  by (simp add: calls_def)

lemma calls_Cons_Call [simp]: "calls (Call p # l) = p # calls l"
  by (simp add: calls_def)

lemma calls_Cons_OpenAI [simp]: "calls (OpenAI_request m # l) = calls l"
  by (simp add: calls_def)

lemma calls_Cons_Gemini [simp]: "calls (Gemini_request a b c # l) = calls l"
  by (simp add: calls_def)

lemma callOpenAI_log: "calls (fst (callOpenAI s req)) = [] \<and> length (fst (callOpenAI s req)) \<le> 1"
  by (simp add: callOpenAI_def OpenAIService_ChatCompletion_def Let_def split: option.splits sum.splits list.splits)

lemma callGemini_log: "calls (fst (callGemini s req)) = [] \<and> length (fst (callGemini s req)) \<le> 1"
  by (simp add: callGemini_def GeminiService_ChatCompletion_def Let_def split: option.splits sum.splits list.splits)

lemma callProvider_log:
  "calls (fst (callProvider s req p)) = [p] \<and> length (fst (callProvider s req p)) \<le> 2"
  using callOpenAI_log [of s req] callGemini_log [of s req]
  by (cases "callOpenAI s req"; cases "callGemini s req") (simp add: callProvider_def)

lemma ChatCompletion_cases:
  "ChatCompletion s req =
     (case snd (callProvider s req (selectedProvider s req)) of
        Inr response \<Rightarrow> (fst (callProvider s req (selectedProvider s req)),
                          Inr (response\<lparr>Provider := selectedProvider s req\<rparr>))
      | Inl err \<Rightarrow>
          if err = Panic then (fst (callProvider s req (selectedProvider s req)), Inl Panic)
          else (fst (callProvider s req (selectedProvider s req)) @ fst (callProvider s req (fallbackProvider s)),
                case snd (callProvider s req (fallbackProvider s)) of
                  Inr response \<Rightarrow> Inr (response\<lparr>Provider := fallbackProvider s\<rparr>)
                | Inl err2 \<Rightarrow> if err2 = Panic then Inl Panic
                              else Inl (Both_AI_providers_failed (selectedProvider s req) (fallbackProvider s))))"
proof -
  obtain l1 r1 where c1: "callProvider s req (selectedProvider s req) = (l1, r1)"
    by (cases "callProvider s req (selectedProvider s req)")
  obtain l2 r2 where c2: "callProvider s req (fallbackProvider s) = (l2, r2)"
    by (cases "callProvider s req (fallbackProvider s)")
  have "ChatCompletion s req =
     (case r1 of Inr response \<Rightarrow> (l1, Inr (response\<lparr>Provider := selectedProvider s req\<rparr>))
      | Inl err \<Rightarrow> if err = Panic then (l1, Inl Panic)
          else (case r2 of
                  Inr response \<Rightarrow> (l1 @ l2, Inr (response\<lparr>Provider := fallbackProvider s\<rparr>))
                | Inl err2 \<Rightarrow> if err2 = Panic then (l1 @ l2, Inl Panic)
                    else (l1 @ l2, Inl (Both_AI_providers_failed (selectedProvider s req) (fallbackProvider s)))))"
    using c1 c2 unfolding ChatCompletion_def selectedProvider_def Let_def by (cases r1; cases r2) simp_all
  then show ?thesis
    unfolding c1 c2 by (cases r1; cases r2) simp_all
qed


text \<open>The adapters of the worked examples, evaluated.\<close>

lemma callProvider_openai_down:
  "openAIService s = Some openai_down \<Longrightarrow>
   snd (callProvider s req OpenAIProvider) = Inl OpenAI_API_error"
  by (simp add: callProvider_def callOpenAI_def OpenAIService_ChatCompletion_def openai_down_def Let_def)

lemma callProvider_gemini_down:
  "geminiService s = Some gemini_down \<Longrightarrow> Messages req \<noteq> [] \<Longrightarrow>
   snd (callProvider s req GeminiProvider) = Inl Gemini_API_error"
  by (simp add: callProvider_def callGemini_def GeminiService_ChatCompletion_def gemini_down_def Let_def
      OpenAIProvider_def GeminiProvider_def split: list.splits)

lemma callProvider_gemini_up:
  "geminiService s = Some gemini_up \<Longrightarrow> Messages req \<noteq> [] \<Longrightarrow>
   snd (callProvider s req GeminiProvider)
     = Inr \<lparr>Message = ''from gemini'', Sources = Context req, res_SessionID = SessionID req,
             Provider = [], Model = ''gemini-1.5-pro''\<rparr>"
  by (simp add: callProvider_def callGemini_def GeminiService_ChatCompletion_def gemini_up_def Let_def
      OpenAIProvider_def GeminiProvider_def split: list.splits)

lemma callProvider_openai_up:
  "openAIService s = Some openai_up \<Longrightarrow>
   snd (callProvider s req OpenAIProvider)
     = Inr \<lparr>Message = ''from openai'', Sources = Context req, res_SessionID = SessionID req,
             Provider = [], Model = ''openai''\<rparr>"
  by (simp add: callProvider_def callOpenAI_def OpenAIService_ChatCompletion_def openai_up_def Let_def)

text \<open>
  C3 (as amended). \<open>ChatCompletion\<close> enters the selected provider (the preferred one if
  given, else the primary) once. If that attempt returns a response, nothing else is tried and
  the response names the selected provider. If it returns an error, the configured fallback
  provider is entered once, whatever provider was tried first; a response then names the
  fallback provider, and a second error gives the error naming the selected and the fallback
  provider. There are never more than two attempts, each reaching its external API at most
  once, and the fallback fixed at construction is the other provider than the primary given
  there.
\<close>

theorem ChatCompletion_two_shot:
  "(snd (callProvider s req (selectedProvider s req)) = Inr r \<longrightarrow>
      calls (fst (ChatCompletion s req)) = [selectedProvider s req]
      \<and> snd (ChatCompletion s req) = Inr (r\<lparr>Provider := selectedProvider s req\<rparr>))
   \<and> (snd (callProvider s req (selectedProvider s req)) = Inl e \<and> e \<noteq> Panic \<longrightarrow>
      calls (fst (ChatCompletion s req)) = [selectedProvider s req, fallbackProvider s]
      \<and> (snd (callProvider s req (fallbackProvider s)) = Inr r' \<longrightarrow>
            snd (ChatCompletion s req) = Inr (r'\<lparr>Provider := fallbackProvider s\<rparr>))
      \<and> (snd (callProvider s req (fallbackProvider s)) = Inl e' \<and> e' \<noteq> Panic \<longrightarrow>
            snd (ChatCompletion s req)
              = Inl (Both_AI_providers_failed (selectedProvider s req) (fallbackProvider s))))
   \<and> length (calls (fst (ChatCompletion s req))) \<le> 2
   \<and> length (fst (ChatCompletion s req)) \<le> 2 * length (calls (fst (ChatCompletion s req)))
   \<and> fallbackProvider (NewUnifiedAIService oa ge p)
        = (if p = GeminiProvider then OpenAIProvider else GeminiProvider)"
proof -
  let ?sel = "selectedProvider s req" and ?fb = "fallbackProvider s"
  have l: "calls (fst (callProvider s req q)) = [q]" "length (fst (callProvider s req q)) \<le> 2" for q
    using callProvider_log [of s req q] by simp_all
  have a: "snd (callProvider s req ?sel) = Inr r \<longrightarrow>
      calls (fst (ChatCompletion s req)) = [?sel]
      \<and> snd (ChatCompletion s req) = Inr (r\<lparr>Provider := ?sel\<rparr>)"
    by (simp add: ChatCompletion_cases l)
  have b: "snd (callProvider s req ?sel) = Inl e \<and> e \<noteq> Panic \<longrightarrow>
      calls (fst (ChatCompletion s req)) = [?sel, ?fb]
      \<and> (snd (callProvider s req ?fb) = Inr r' \<longrightarrow>
            snd (ChatCompletion s req) = Inr (r'\<lparr>Provider := ?fb\<rparr>))
      \<and> (snd (callProvider s req ?fb) = Inl e' \<and> e' \<noteq> Panic \<longrightarrow>
            snd (ChatCompletion s req) = Inl (Both_AI_providers_failed ?sel ?fb))"
    by (simp add: ChatCompletion_cases l)
  have c: "length (calls (fst (ChatCompletion s req))) \<le> 2"
    by (simp add: ChatCompletion_cases l split: sum.splits)
  have d: "length (fst (ChatCompletion s req)) \<le> 2 * length (calls (fst (ChatCompletion s req)))"
    using l(2) [of ?sel] l(2) [of ?fb]
    by (simp add: ChatCompletion_cases l(1) split: sum.splits)
  have e: "fallbackProvider (NewUnifiedAIService oa ge p)
        = (if p = GeminiProvider then OpenAIProvider else GeminiProvider)"
    by (simp add: NewUnifiedAIService_def)
  from a b c d e show ?thesis by blast
qed



theorem ChatCompletion_two_shot_witness:
  "snd (callProvider (NewUnifiedAIService (Some openai_up) (Some gemini_up) OpenAIProvider) hello_request OpenAIProvider)
     = Inr \<lparr>Message = ''from openai'', Sources = [], res_SessionID = 1, Provider = [], Model = ''openai''\<rparr>
   \<and> ChatCompletion (NewUnifiedAIService (Some openai_up) (Some gemini_up) OpenAIProvider) hello_request
     = ([Call ''openai'', OpenAI_request [ChatCompletionMessage ''system'' baseMessage, ChatCompletionMessage ''user'' ''hello'']],
        Inr \<lparr>Message = ''from openai'', Sources = [], res_SessionID = 1, Provider = ''openai'', Model = ''openai''\<rparr>)
   \<and> snd (callProvider (NewUnifiedAIService (Some openai_down) (Some gemini_up) OpenAIProvider) hello_request OpenAIProvider)
     = Inl OpenAI_API_error
   \<and> calls (fst (ChatCompletion (NewUnifiedAIService (Some openai_down) (Some gemini_up) OpenAIProvider) hello_request))
     = [''openai'', ''gemini'']
   \<and> snd (ChatCompletion (NewUnifiedAIService (Some openai_down) (Some gemini_up) OpenAIProvider) hello_request)
     = Inr \<lparr>Message = ''from gemini'', Sources = [], res_SessionID = 1, Provider = ''gemini'', Model = ''gemini-1.5-pro''\<rparr>
   \<and> snd (callProvider (NewUnifiedAIService (Some openai_down) (Some gemini_down) OpenAIProvider) hello_request GeminiProvider)
     = Inl Gemini_API_error
   \<and> snd (ChatCompletion (NewUnifiedAIService (Some openai_down) (Some gemini_down) OpenAIProvider) hello_request)
     = Inl (Both_AI_providers_failed ''openai'' ''gemini'')"
proof -
  let ?uu = "NewUnifiedAIService (Some openai_up) (Some gemini_up) OpenAIProvider"
  let ?du = "NewUnifiedAIService (Some openai_down) (Some gemini_up) OpenAIProvider"
  let ?dd = "NewUnifiedAIService (Some openai_down) (Some gemini_down) OpenAIProvider"
  have sel: "selectedProvider ?uu hello_request = OpenAIProvider"
       "selectedProvider ?du hello_request = OpenAIProvider"
       "selectedProvider ?dd hello_request = OpenAIProvider"
       "fallbackProvider ?du = GeminiProvider" "fallbackProvider ?dd = GeminiProvider"
    by (simp_all add: selectedProvider_def NewUnifiedAIService_def hello_request_def OpenAIProvider_def GeminiProvider_def)
  have u1: "snd (callProvider ?uu hello_request OpenAIProvider)
     = Inr \<lparr>Message = ''from openai'', Sources = [], res_SessionID = 1, Provider = [], Model = ''openai''\<rparr>"
    using callProvider_openai_up [of ?uu hello_request]
    by (simp add: NewUnifiedAIService_def hello_request_def)
  have d1: "snd (callProvider ?du hello_request OpenAIProvider) = Inl OpenAI_API_error"
       "snd (callProvider ?dd hello_request OpenAIProvider) = Inl OpenAI_API_error"
    by (simp_all add: callProvider_openai_down NewUnifiedAIService_def)
  have g1: "snd (callProvider ?du hello_request GeminiProvider)
     = Inr \<lparr>Message = ''from gemini'', Sources = [], res_SessionID = 1, Provider = [], Model = ''gemini-1.5-pro''\<rparr>"
    using callProvider_gemini_up [of ?du hello_request]
    by (simp add: NewUnifiedAIService_def hello_request_def)
  have g2: "snd (callProvider ?dd hello_request GeminiProvider) = Inl Gemini_API_error"
    using callProvider_gemini_down [of ?dd hello_request]
    by (simp add: NewUnifiedAIService_def hello_request_def)
  have full: "fst (ChatCompletion ?uu hello_request)
      = [Call ''openai'', OpenAI_request [ChatCompletionMessage ''system'' baseMessage, ChatCompletionMessage ''user'' ''hello'']]"
    by (simp add: ChatCompletion_def callProvider_def callOpenAI_def OpenAIService_ChatCompletion_def
        NewUnifiedAIService_def openai_up_def hello_request_def OpenAIProvider_def Let_def buildSystemMessage_def)
  from ChatCompletion_two_shot [of ?uu hello_request _ OpenAI_API_error]
       ChatCompletion_two_shot [of ?du hello_request _ OpenAI_API_error _ Gemini_API_error]
       ChatCompletion_two_shot [of ?dd hello_request _ OpenAI_API_error _ Gemini_API_error]
  show ?thesis
    unfolding sel u1 d1 g1 g2
    using full
    by (simp add: OpenAIProvider_def GeminiProvider_def prod_eq_iff)
qed

text \<open>
  The claim as first stated asks the fallback to be the other provider than the one first
  attempted. With primary \<open>openai\<close> and preferred provider \<open>gemini\<close> the retry goes to
  \<open>gemini\<close> again.
\<close>

theorem ChatCompletion_retry_same_provider_counterexample:
  "selectedProvider (NewUnifiedAIService (Some openai_down) (Some gemini_down) OpenAIProvider)
       (hello_request\<lparr>PreferredProvider := GeminiProvider\<rparr>) = ''gemini''
   \<and> fallbackProvider (NewUnifiedAIService (Some openai_down) (Some gemini_down) OpenAIProvider) = ''gemini''
   \<and> calls (fst (ChatCompletion (NewUnifiedAIService (Some openai_down) (Some gemini_down) OpenAIProvider)
                    (hello_request\<lparr>PreferredProvider := GeminiProvider\<rparr>))) = [''gemini'', ''gemini'']
   \<and> snd (ChatCompletion (NewUnifiedAIService (Some openai_down) (Some gemini_down) OpenAIProvider)
                    (hello_request\<lparr>PreferredProvider := GeminiProvider\<rparr>))
       = Inl (Both_AI_providers_failed ''gemini'' ''gemini'')"
  by (simp add: ChatCompletion_def callProvider_def callGemini_def NewUnifiedAIService_def
      GeminiService_ChatCompletion_def gemini_down_def OpenAIProvider_def GeminiProvider_def
      hello_request_def calls_def selectedProvider_def Let_def)



end
